theory Spec2Isabelle
  imports Complex_Main "HOL-Library.Sublist"
begin

section \<open>Values of the JavaScript runtime\<close>

text \<open>
  The client handles untyped values: what \<open>response.json()\<close> decodes, the request bodies
  it builds, and the results it hands back. \<open>Undefined\<close> is JavaScript's \<open>undefined\<close>
  (an absent property, the result of a 204 call); \<open>Date s\<close> is the object \<open>new Date(s)\<close>.
  An object is the list of its own enumerable properties in the order of
  \<open>Object.entries\<close>; no object of the runtime has two properties of one name, so the
  lists that stand for objects have distinct names. \<open>Obj\<close> is an object whose prototype
  is \<open>Object.prototype\<close>, as every object that \<open>JSON.parse\<close> or an object literal
  creates; \<open>ObjProto kvs p\<close> is an object whose prototype has been replaced by \<open>p\<close>,
  which is \<open>null\<close> or an object.
\<close>

datatype jsval =
    Undefined
  | Null
  | Bool bool
  | Num rat
  | Str string
  | Arr "jsval list"
  | Obj "(string \<times> jsval) list"
  | ObjProto "(string \<times> jsval) list" jsval
  | Date string

section \<open>errors.ts: the error taxonomy\<close>

text \<open>
  \<open>err_class\<close> is the class an error object was constructed by: \<open>e instanceof SubformerError\<close>
  holds for the five classes of errors.ts, and every other \<open>Error\<close> of the runtime
  (\<open>TypeError\<close>, \<open>SyntaxError\<close>, the \<open>AbortError\<close> of a cancelled fetch, a plain \<open>Error\<close>) is a
  \<open>BuiltinError\<close>.
\<close>

datatype err_class =
    SubformerErrorC
  | AuthenticationErrorC
  | NotFoundErrorC
  | RateLimitErrorC
  | ValidationErrorC
  | BuiltinError

text \<open>
  The fields of an error object. \<open>message\<close> holds the value the \<open>Error\<close> constructor was
  given (JavaScript stores its string conversion, which is the identity on strings).
\<close>

record error =
  cls :: err_class
  name :: string
  message :: jsval
  statusCode :: "nat option"
  code :: jsval
  data :: jsval

text \<open>The optional second argument of \<open>SubformerError\<close>'s constructor.\<close>

record err_options =
  opt_statusCode :: "nat option"
  opt_code :: jsval
  opt_data :: jsval

text \<open>
  \<open>super(message)\<close> of the built-in \<open>Error\<close>: an argument that is \<open>undefined\<close> leaves the
  message the empty string of \<open>Error.prototype\<close>.
\<close>

definition Error_message :: "jsval \<Rightarrow> jsval" where
  "Error_message m = (if m = Undefined then Str [] else m)"

text \<open>A built-in error: \<open>new Error(m)\<close> with its \<open>name\<close>.\<close>

definition new_Error :: "string \<Rightarrow> jsval \<Rightarrow> error" where
  "new_Error n m =
     \<lparr>cls = BuiltinError, name = n, message = Error_message m,
      statusCode = None, code = Undefined, data = Undefined\<rparr>"

text \<open>
  \<open>new SubformerError(message, options?)\<close>: \<open>options?.statusCode\<close> and its siblings are
  \<open>undefined\<close> when no options are passed. An omitted argument is \<open>Undefined\<close>.
\<close>

definition new_SubformerError :: "jsval \<Rightarrow> err_options option \<Rightarrow> error" where
  "new_SubformerError m opts =
     \<lparr>cls = SubformerErrorC, name = ''SubformerError'', message = Error_message m,
      statusCode = (case opts of None \<Rightarrow> None | Some o' \<Rightarrow> opt_statusCode o'),
      code = (case opts of None \<Rightarrow> Undefined | Some o' \<Rightarrow> opt_code o'),
      data = (case opts of None \<Rightarrow> Undefined | Some o' \<Rightarrow> opt_data o')\<rparr>"

text \<open>
  The subclasses call \<open>super\<close> and then set \<open>name\<close>. A parameter with a default
  (\<open>message = "..."\<close>) takes it exactly when the argument is \<open>undefined\<close>.
\<close>

definition new_AuthenticationError :: "jsval \<Rightarrow> error" where
  "new_AuthenticationError m =
     (let message = (if m = Undefined then Str ''Invalid or missing API key'' else m)
      in (new_SubformerError message
            (Some \<lparr>opt_statusCode = Some 401, opt_code = Str ''UNAUTHORIZED'',
                   opt_data = Undefined\<rparr>))
         \<lparr>cls := AuthenticationErrorC, name := ''AuthenticationError''\<rparr>)"

definition new_NotFoundError :: "jsval \<Rightarrow> error" where
  "new_NotFoundError m =
     (let message = (if m = Undefined then Str ''Resource not found'' else m)
      in (new_SubformerError message
            (Some \<lparr>opt_statusCode = Some 404, opt_code = Str ''NOT_FOUND'',
                   opt_data = Undefined\<rparr>))
         \<lparr>cls := NotFoundErrorC, name := ''NotFoundError''\<rparr>)"

definition new_RateLimitError :: "jsval \<Rightarrow> error" where
  "new_RateLimitError m =
     (let message = (if m = Undefined then Str ''Rate limit exceeded'' else m)
      in (new_SubformerError message
            (Some \<lparr>opt_statusCode = Some 429, opt_code = Str ''RATE_LIMIT_EXCEEDED'',
                   opt_data = Undefined\<rparr>))
         \<lparr>cls := RateLimitErrorC, name := ''RateLimitError''\<rparr>)"

definition new_ValidationError :: "jsval \<Rightarrow> jsval \<Rightarrow> error" where
  "new_ValidationError m d =
     (new_SubformerError m
        (Some \<lparr>opt_statusCode = Some 400, opt_code = Str ''BAD_REQUEST'', opt_data = d\<rparr>))
     \<lparr>cls := ValidationErrorC, name := ''ValidationError''\<rparr>"

text \<open>What a \<open>throw\<close> carries: an \<open>Error\<close> object, or any other value.\<close>

datatype thrown = ThrownError error | ThrownValue jsval

definition instanceof_SubformerError :: "thrown \<Rightarrow> bool" where
  "instanceof_SubformerError t =
     (case t of ThrownError e \<Rightarrow> cls e \<noteq> BuiltinError | ThrownValue _ \<Rightarrow> False)"

section \<open>client.ts: the request pipeline\<close>

text \<open>
  Reading a property \<open>v.k\<close> of a value other than \<open>null\<close> and \<open>undefined\<close>: the own
  property of an object, else the property found along its prototypes, else \<open>undefined\<close>.
  The names the client reads (\<open>message\<close>, \<open>code\<close>, \<open>data\<close>, \<open>job\<close>, \<open>state\<close>) are
  properties of no primitive, array or date and of none of the built-in prototypes.
\<close>

fun property :: "jsval \<Rightarrow> string \<Rightarrow> jsval" where
  "property (Obj kvs) k = (case map_of kvs k of None \<Rightarrow> Undefined | Some x \<Rightarrow> x)"
| "property (ObjProto kvs p) k = (case map_of kvs k of None \<Rightarrow> property p k | Some x \<Rightarrow> x)"
| "property v k = Undefined"

text \<open>Reading \<open>v.k\<close>: a \<open>TypeError\<close> on \<open>null\<close> and \<open>undefined\<close>.\<close>

definition get_prop :: "jsval \<Rightarrow> string \<Rightarrow> thrown + jsval" where
  "get_prop v k =
     (case v of
        Undefined \<Rightarrow> Inl (ThrownError (new_Error ''TypeError''
            (Str (''Cannot read properties of undefined (reading '' @ k @ '')''))))
      | Null \<Rightarrow> Inl (ThrownError (new_Error ''TypeError''
            (Str (''Cannot read properties of null (reading '' @ k @ '')''))))
      | _ \<Rightarrow> Inr (property v k))"

text \<open>
  A \<open>Response\<close>: its status, its reason phrase, and what \<open>response.json()\<close> does, which is to
  throw (\<open>Inl\<close>, a \<open>SyntaxError\<close> on a body that is not JSON) or to return the decoded value.
\<close>

record response =
  status :: nat
  statusText :: string
  json :: "thrown + jsval"

definition ok :: "response \<Rightarrow> bool" where
  "ok r = (200 \<le> status r \<and> status r \<le> 299)"

text \<open>
  \<open>handleError\<close> never returns: the model gives the error it throws. The \<open>try\<close> block
  assigns \<open>message\<close>, \<open>code\<close> and \<open>data\<close> together or, when \<open>response.json()\<close> or the first
  property read throws, none of them; \<open>a ?? b\<close> is \<open>b\<close> when \<open>a\<close> is \<open>null\<close> or \<open>undefined\<close>.
\<close>

definition handleError :: "response \<Rightarrow> error" where
  "handleError r =
     (let (message, code, data) =
        (case json r of
           Inl _ \<Rightarrow> (Str (statusText r), Undefined, Undefined)
         | Inr j \<Rightarrow>
            (case get_prop j ''message'' of
               Inl _ \<Rightarrow> (Str (statusText r), Undefined, Undefined)
             | Inr m \<Rightarrow>
                (if m = Null \<or> m = Undefined then Str (statusText r) else m,
                 (case get_prop j ''code'' of Inl _ \<Rightarrow> Undefined | Inr c \<Rightarrow> c),
                 (case get_prop j ''data'' of Inl _ \<Rightarrow> Undefined | Inr d \<Rightarrow> d))))
      in if status r = 401 then new_AuthenticationError message
         else if status r = 404 then new_NotFoundError message
         else if status r = 429 then new_RateLimitError message
         else if status r = 400 then new_ValidationError message data
         else new_SubformerError message
                (Some \<lparr>opt_statusCode = Some (status r), opt_code = code, opt_data = data\<rparr>))"

text \<open>
  \<open>key.endsWith(suffix)\<close> and the test of the regular expression
  \<open>/^\d{4}-\d{2}-\d{2}T/\<close> (a prefix match, \<open>\d\<close> an ASCII digit) are written out.
\<close>

definition endsWith :: "string \<Rightarrow> string \<Rightarrow> bool" where
  "endsWith s suf =
     (length suf \<le> length s \<and> drop (length s - length suf) s = suf)"

definition isDigit :: "char \<Rightarrow> bool" where
  "isDigit c = (c \<in> set ''0123456789'')"

fun matchPrefix :: "(char \<Rightarrow> bool) list \<Rightarrow> string \<Rightarrow> bool" where
  "matchPrefix [] s = True"
| "matchPrefix (p # ps) [] = False"
| "matchPrefix (p # ps) (c # cs) = (p c \<and> matchPrefix ps cs)"

definition isoDatePattern :: "(char \<Rightarrow> bool) list" where
  "isoDatePattern =
     [isDigit, isDigit, isDigit, isDigit, (\<lambda>c. c = CHR ''-''),
      isDigit, isDigit, (\<lambda>c. c = CHR ''-''),
      isDigit, isDigit, (\<lambda>c. c = CHR ''T'')]"

definition isoDateTest :: "string \<Rightarrow> bool" where
  "isoDateTest s = matchPrefix isoDatePattern s"

text \<open>The condition of the \<open>if\<close> in the loop over \<open>Object.entries\<close>.\<close>

fun isDateField :: "string \<Rightarrow> jsval \<Rightarrow> bool" where
  "isDateField key (Str s) =
     ((endsWith key ''At'' \<or> endsWith key ''On'') \<and> isoDateTest s)"
| "isDateField key _ = False"

text \<open>
  The loop \<open>result[key] = ...\<close> over the entries, starting from \<open>{}\<close>. An assignment
  creates an own property, except under the name \<open>__proto__\<close>: that one runs the setter
  of \<open>Object.prototype\<close>, which replaces the prototype of \<open>result\<close> when the value is
  \<open>null\<close> or an object, does nothing otherwise, and creates no property in either case.
\<close>

fun isObjectOrNull :: "jsval \<Rightarrow> bool" where
  "isObjectOrNull Null = True"
| "isObjectOrNull (Arr xs) = True"
| "isObjectOrNull (Obj kvs) = True"
| "isObjectOrNull (ObjProto kvs p) = True"
| "isObjectOrNull (Date s) = True"
| "isObjectOrNull v = False"

definition assignAll :: "(string \<times> jsval) list \<Rightarrow> jsval" where
  "assignAll entries =
     (let own = filter (\<lambda>kv. fst kv \<noteq> ''__proto__'') entries in
      case map_of entries ''__proto__'' of
        None \<Rightarrow> Obj own
      | Some p \<Rightarrow> if isObjectOrNull p then ObjProto own p else Obj own)"

text \<open>
  \<open>transformDates\<close>. Any object that is no array is walked through its own entries; a
  \<open>Date\<close> has none, so the loop over its entries builds the empty object.
\<close>

fun transformDates :: "jsval \<Rightarrow> jsval" where
  "transformDates Null = Null"
| "transformDates Undefined = Undefined"
| "transformDates (Arr xs) = Arr (map transformDates xs)"
| "transformDates (Obj kvs) =
     assignAll (map (\<lambda>kv. (fst kv,
                 if isDateField (fst kv) (snd kv)
                 then (case snd kv of Str s \<Rightarrow> Date s | v \<Rightarrow> v)
                 else transformDates (snd kv))) kvs)"
| "transformDates (ObjProto kvs p) =
     assignAll (map (\<lambda>kv. (fst kv,
                 if isDateField (fst kv) (snd kv)
                 then (case snd kv of Str s \<Rightarrow> Date s | v \<Rightarrow> v)
                 else transformDates (snd kv))) kvs)"
| "transformDates (Date s) = Obj []"
| "transformDates v = v"

text \<open>
  The client's configuration, and the constructor: \<open>a ?? b\<close> on the optional fields, and
  \<open>replace(/\/$/, "")\<close>, which drops one trailing slash.
\<close>

record SubformerOptions =
  opt_apiKey :: string
  opt_baseUrl :: "string option"
  opt_timeout :: "int option"

record config =
  apiKey :: string
  baseUrl :: string
  timeout :: int

definition DEFAULT_BASE_URL :: string where
  "DEFAULT_BASE_URL = ''https://api.subformer.com/v1''"

definition DEFAULT_TIMEOUT :: int where
  "DEFAULT_TIMEOUT = 30000"

definition stripTrailingSlash :: "string \<Rightarrow> string" where
  "stripTrailingSlash s = (if endsWith s ''/'' then butlast s else s)"

definition new_Subformer :: "SubformerOptions \<Rightarrow> config" where
  "new_Subformer options =
     \<lparr>apiKey = opt_apiKey options,
      baseUrl = stripTrailingSlash
        (case opt_baseUrl options of None \<Rightarrow> DEFAULT_BASE_URL | Some b \<Rightarrow> b),
      timeout = (case opt_timeout options of None \<Rightarrow> DEFAULT_TIMEOUT | Some t \<Rightarrow> t)\<rparr>"

text \<open>
  What \<open>fetch\<close> is called with. \<open>req_url\<close> is the string \<open>baseUrl + path\<close> the \<open>URL\<close> is
  built from and \<open>req_query\<close> the search parameters set on it; \<open>req_body\<close> is the value
  handed to \<open>JSON.stringify\<close>, or \<open>None\<close> when no body is sent.
\<close>

record http_request =
  req_method :: string
  req_url :: string
  req_query :: "(string \<times> string) list"
  req_headers :: "(string \<times> string) list"
  req_body :: "jsval option"

text \<open>Decimal notation of an integer, as \<open>String(n)\<close> and a template literal print it.\<close>

fun string_of_nat :: "nat \<Rightarrow> string" where
  "string_of_nat n =
     (if n < 10 then [''0123456789'' ! n]
      else string_of_nat (n div 10) @ [''0123456789'' ! (n mod 10)])"

definition string_of_int :: "int \<Rightarrow> string" where
  "string_of_int i = (if i < 0 then CHR ''-'' # string_of_nat (nat (- i)) else string_of_nat (nat i))"

text \<open>A query parameter's value and \<open>String(value)\<close>.\<close>

datatype param = PStr string | PNum int | PBool bool

fun String_param :: "param \<Rightarrow> string" where
  "String_param (PStr s) = s"
| "String_param (PNum n) = string_of_int n"
| "String_param (PBool b) = (if b then ''true'' else ''false'')"

text \<open>\<open>url.searchParams.set(key, value)\<close>: the first entry of that name is replaced and
  the others are removed; a new name is appended.\<close>

fun searchParams_set :: "(string \<times> string) list \<Rightarrow> string \<Rightarrow> string \<Rightarrow> (string \<times> string) list" where
  "searchParams_set [] k v = [(k, v)]"
| "searchParams_set ((k', v') # q) k v =
     (if k' = k then (k, v) # filter (\<lambda>kv. fst kv \<noteq> k) q
      else (k', v') # searchParams_set q k v)"

fun setParams :: "(string \<times> string) list \<Rightarrow> (string \<times> param option) list \<Rightarrow> (string \<times> string) list" where
  "setParams q [] = q"
| "setParams q ((key, value) # ps) =
     (case value of
        None \<Rightarrow> setParams q ps
      | Some v \<Rightarrow> setParams (searchParams_set q key (String_param v)) ps)"

text \<open>Truthiness of a value, for \<open>options?.body ? ... : undefined\<close>.\<close>

fun truthy :: "jsval \<Rightarrow> bool" where
  "truthy Undefined = False"
| "truthy Null = False"
| "truthy (Bool b) = b"
| "truthy (Num n) = (n \<noteq> 0)"
| "truthy (Str s) = (s \<noteq> [])"
| "truthy _ = True"

text \<open>
  The timer of one call and its \<open>AbortController\<close>. \<open>setTimeout\<close> leaves the timer pending
  with its delay; it stops being pending when it fires, which runs \<open>controller.abort()\<close>, or when
  \<open>clearTimeout\<close> cancels it. \<open>clearTimeout\<close> on a timer that is not pending does nothing.
\<close>

datatype timer = Unset | Pending int | Fired | Cleared

record rstate =
  timeoutId :: timer
  aborted :: bool

definition initial :: rstate where
  "initial = \<lparr>timeoutId = Unset, aborted = False\<rparr>"

definition setTimeout_abort :: "rstate \<Rightarrow> int \<Rightarrow> rstate" where
  "setTimeout_abort s delay = s\<lparr>timeoutId := Pending delay\<rparr>"

definition pending :: "rstate \<Rightarrow> bool" where
  "pending s = (case timeoutId s of Pending _ \<Rightarrow> True | _ \<Rightarrow> False)"

definition clearTimeout :: "rstate \<Rightarrow> rstate" where
  "clearTimeout s = (if pending s then s\<lparr>timeoutId := Cleared\<rparr> else s)"

definition timer_fires :: "rstate \<Rightarrow> rstate" where
  "timer_fires s = s\<lparr>timeoutId := Fired, aborted := True\<rparr>"

text \<open>
  What the transport does with a call: the promise of \<open>fetch\<close> is fulfilled with a response,
  is rejected by the transport, or is still unsettled when the timer fires. In the last
  case the callback aborts the signal and \<open>fetch\<close> rejects with the \<open>AbortError\<close> of the
  runtime.
\<close>

datatype fetch_outcome = Resolves response | Rejects thrown | Hangs

definition await_fetch :: "rstate \<Rightarrow> fetch_outcome \<Rightarrow> (thrown + response) \<times> rstate" where
  "await_fetch s out =
     (case out of
        Resolves r \<Rightarrow> (Inr r, s)
      | Rejects t \<Rightarrow> (Inl t, s)
      | Hangs \<Rightarrow>
          (Inl (ThrownError (new_Error ''AbortError'' (Str ''This operation was aborted''))),
           timer_fires s))"

text \<open>The \<open>catch\<close> block of \<open>request\<close>.\<close>

definition request_catch :: "rstate \<Rightarrow> thrown \<Rightarrow> (thrown + jsval) \<times> rstate" where
  "request_catch s err =
     (let s' = clearTimeout s in
      if instanceof_SubformerError err then (Inl err, s')
      else (case err of
              ThrownError e \<Rightarrow>
                if name e = ''AbortError''
                then (Inl (ThrownError (new_SubformerError (Str ''Request timeout'') None)), s')
                else (Inl (ThrownError (new_SubformerError (message e) None)), s')
            | ThrownValue _ \<Rightarrow>
                (Inl (ThrownError (new_SubformerError (Str ''Unknown error'') None)), s')))"

text \<open>
  \<open>request\<close>, from the creation of the controller on, with the state of the timer at the
  exit. The transport is a parameter.
\<close>

definition build_request ::
  "config \<Rightarrow> string \<Rightarrow> string \<Rightarrow> jsval \<Rightarrow> (string \<times> param option) list option \<Rightarrow> http_request" where
  "build_request cfg method path body params =
     \<lparr>req_method = method,
      req_url = baseUrl cfg @ path,
      req_query = (case params of None \<Rightarrow> [] | Some ps \<Rightarrow> setParams [] ps),
      req_headers = [(''x-api-key'', apiKey cfg), (''Content-Type'', ''application/json'')],
      req_body = (if truthy body then Some body else None)\<rparr>"

definition request_st ::
  "config \<Rightarrow> (http_request \<Rightarrow> fetch_outcome) \<Rightarrow> string \<Rightarrow> string \<Rightarrow> jsval \<Rightarrow>
   (string \<times> param option) list option \<Rightarrow> (thrown + jsval) \<times> rstate" where
  "request_st cfg fetch method path body params =
     (let s1 = setTimeout_abort initial (timeout cfg);
          (settled, s2) = await_fetch s1 (fetch (build_request cfg method path body params))
      in case settled of
           Inl err \<Rightarrow> request_catch s2 err
         | Inr response \<Rightarrow>
             (let s3 = clearTimeout s2 in
              if \<not> ok response then request_catch s3 (ThrownError (handleError response))
              else if status response = 204 then (Inr Undefined, s3)
              else (case json response of
                      Inl err \<Rightarrow> request_catch s3 err
                    | Inr d \<Rightarrow> (Inr (transformDates d), s3))))"

definition request ::
  "config \<Rightarrow> (http_request \<Rightarrow> fetch_outcome) \<Rightarrow> string \<Rightarrow> string \<Rightarrow> jsval \<Rightarrow>
   (string \<times> param option) list option \<Rightarrow> thrown + jsval" where
  "request cfg fetch method path body params =
     fst (request_st cfg fetch method path body params)"

section \<open>client.ts: the operations\<close>

datatype DubSource = youtube | tiktok | instagram | facebook | x_source | url_source

text \<open>A \<open>DubSource\<close> is the string of its name.\<close>

fun DubSource_value :: "DubSource \<Rightarrow> string" where
  "DubSource_value youtube = ''youtube''"
| "DubSource_value tiktok = ''tiktok''"
| "DubSource_value instagram = ''instagram''"
| "DubSource_value facebook = ''facebook''"
| "DubSource_value x_source = ''x''"
| "DubSource_value url_source = ''url''"

record DubOptions =
  source :: DubSource
  url :: string
  language :: string
  disableWatermark :: "bool option"

definition dub_body :: "DubOptions \<Rightarrow> jsval" where
  "dub_body options =
     Obj [(''type'', Str (DubSource_value (source options))),
          (''url'', Str (url options)),
          (''toLanguage'', Str (language options)),
          (''disableWatermark'',
             (case disableWatermark options of None \<Rightarrow> Undefined | Some b \<Rightarrow> Bool b))]"

definition dub :: "config \<Rightarrow> (http_request \<Rightarrow> fetch_outcome) \<Rightarrow> DubOptions \<Rightarrow> thrown + jsval" where
  "dub cfg fetch options =
     (case request cfg fetch ''POST'' ''/dub'' (dub_body options) None of
        Inl err \<Rightarrow> Inl err
      | Inr response \<Rightarrow> get_prop response ''job'')"

definition getJob :: "config \<Rightarrow> (http_request \<Rightarrow> fetch_outcome) \<Rightarrow> string \<Rightarrow> thrown + jsval" where
  "getJob cfg fetch jobId = request cfg fetch ''GET'' (''/jobs/'' @ jobId) Undefined None"

text \<open>
  \<open>waitForJob\<close>. Its options are in seconds; whole numbers of seconds are modelled.
  The runtime computes with them exactly, and prints them in decimal notation, as long as
  their milliseconds are safe integers (\<open>exact_ms\<close>).
  The loop runs against what it observes: the time \<open>Date.now()\<close> gave before the loop
  and, for each pass, the behaviour of the transport at that call of \<open>getJob\<close> together
  with the time \<open>Date.now()\<close> gives if the pass reads the clock. The result records the
  number of calls of \<open>getJob\<close> and the delays slept. A loop that has not left after the
  last observed pass has no result: \<open>None\<close>.
\<close>

definition MAX_SAFE_INTEGER :: int where
  "MAX_SAFE_INTEGER = 9007199254740991"

definition exact_ms :: "int \<Rightarrow> bool" where
  "exact_ms secs = (\<bar>secs * 1000\<bar> \<le> MAX_SAFE_INTEGER)"

record WaitForJobOptions =
  pollInterval :: "int option"
  wait_timeout :: "int option"

record wait_result =
  outcome :: "thrown + jsval"
  calls :: nat
  slept :: "int list"

definition terminal :: "jsval \<Rightarrow> bool" where
  "terminal state = (state = Str ''completed'' \<or> state = Str ''failed'' \<or> state = Str ''cancelled'')"

text \<open>The template literal of the failure; \<open>undefined\<close> prints as its name.\<close>

definition timeout_message :: "string \<Rightarrow> int option \<Rightarrow> string" where
  "timeout_message jobId secs =
     ''Job '' @ jobId @ '' did not complete within '' @
     (case secs of None \<Rightarrow> ''undefined'' | Some t \<Rightarrow> string_of_int t) @ '' seconds''"

fun waitLoop ::
  "config \<Rightarrow> string \<Rightarrow> WaitForJobOptions \<Rightarrow> int \<Rightarrow> int option \<Rightarrow> int \<Rightarrow>
   ((http_request \<Rightarrow> fetch_outcome) \<times> int) list \<Rightarrow> nat \<Rightarrow> int list \<Rightarrow> wait_result option" where
  "waitLoop cfg jobId options pollInterval_ms timeout_ms startTime [] n sl = None"
| "waitLoop cfg jobId options pollInterval_ms timeout_ms startTime ((fetch, now) # rest) n sl =
     (case getJob cfg fetch jobId of
        Inl err \<Rightarrow> Some \<lparr>outcome = Inl err, calls = Suc n, slept = sl\<rparr>
      | Inr job \<Rightarrow>
         (case get_prop job ''state'' of
            Inl err \<Rightarrow> Some \<lparr>outcome = Inl err, calls = Suc n, slept = sl\<rparr>
          | Inr state \<Rightarrow>
              if terminal state then Some \<lparr>outcome = Inr job, calls = Suc n, slept = sl\<rparr>
              else if (case timeout_ms of None \<Rightarrow> False
                        | Some t \<Rightarrow> t \<noteq> 0 \<and> now - startTime > t)
              then Some \<lparr>outcome = Inl (ThrownError (new_Error ''Error''
                            (Str (timeout_message jobId (wait_timeout options))))),
                         calls = Suc n, slept = sl\<rparr>
              else waitLoop cfg jobId options pollInterval_ms timeout_ms startTime rest
                     (Suc n) (sl @ [pollInterval_ms])))"

definition waitForJob ::
  "config \<Rightarrow> string \<Rightarrow> WaitForJobOptions \<Rightarrow> int \<Rightarrow>
   ((http_request \<Rightarrow> fetch_outcome) \<times> int) list \<Rightarrow> wait_result option" where
  "waitForJob cfg jobId options startTime passes =
     (let pollInterval_ms = (case pollInterval options of None \<Rightarrow> 2 | Some p \<Rightarrow> p) * 1000;
          timeout_ms = (case wait_timeout options of
                          None \<Rightarrow> None
                        | Some t \<Rightarrow> if t \<noteq> 0 then Some (t * 1000) else None)
      in waitLoop cfg jobId options pollInterval_ms timeout_ms startTime passes 0 [])"

section \<open>Notions the properties are stated with\<close>


text \<open>
  The walk of a decoded value as the specification words it: in a record, a field whose
  name ends in \<open>At\<close> or \<open>On\<close> and whose value is a string that starts with a date-time
  prefix \<open>YYYY-MM-DDT\<close> becomes a date; the walk goes into nested records and into the
  elements of sequences; every other value is left as it is.
\<close>

definition nameEndsAtOrOn :: "string \<Rightarrow> bool" where
  "nameEndsAtOrOn k = (suffix ''At'' k \<or> suffix ''On'' k)"

definition asciiDigit :: "char \<Rightarrow> bool" where
  "asciiDigit c =
     (c = CHR ''0'' \<or> c = CHR ''1'' \<or> c = CHR ''2'' \<or> c = CHR ''3'' \<or> c = CHR ''4'' \<or>
      c = CHR ''5'' \<or> c = CHR ''6'' \<or> c = CHR ''7'' \<or> c = CHR ''8'' \<or> c = CHR ''9'')"

definition isoDateTimePrefix :: "string \<Rightarrow> bool" where
  "isoDateTimePrefix s =
     (11 \<le> length s \<and> (\<forall>i \<in> {0, 1, 2, 3, 5, 6, 8, 9}. asciiDigit (s ! i)) \<and>
      s ! 4 = CHR ''-'' \<and> s ! 7 = CHR ''-'' \<and> s ! 10 = CHR ''T'')"

definition spec_field :: "string \<Rightarrow> jsval \<Rightarrow> jsval \<Rightarrow> jsval" where
  "spec_field k v walked =
     (case v of
        Str s \<Rightarrow> if nameEndsAtOrOn k \<and> isoDateTimePrefix s then Date s else Str s
      | _ \<Rightarrow> walked)"

fun spec_walk :: "jsval \<Rightarrow> jsval" where
  "spec_walk (Obj kvs) =
     Obj (map (\<lambda>kv. (fst kv, spec_field (fst kv) (snd kv) (spec_walk (snd kv)))) kvs)"
| "spec_walk (Arr xs) = Arr (map spec_walk xs)"
| "spec_walk v = v"

text \<open>The values \<open>response.json()\<close> returns: no \<open>undefined\<close> and no date in them.\<close>

fun decoded :: "jsval \<Rightarrow> bool" where
  "decoded Undefined = False"
| "decoded (Date s) = False"
| "decoded (Arr xs) = list_all decoded xs"
| "decoded (Obj kvs) = list_all (\<lambda>kv. decoded (snd kv)) kvs"
| "decoded (ObjProto kvs p) = False"
| "decoded v = True"

text \<open>A value in which no record has a field named \<open>__proto__\<close>.\<close>

fun no_proto_field :: "jsval \<Rightarrow> bool" where
  "no_proto_field (Arr xs) = list_all no_proto_field xs"
| "no_proto_field (Obj kvs) =
     list_all (\<lambda>kv. fst kv \<noteq> ''__proto__'' \<and> no_proto_field (snd kv)) kvs"
| "no_proto_field (ObjProto kvs p) =
     (list_all (\<lambda>kv. fst kv \<noteq> ''__proto__'' \<and> no_proto_field (snd kv)) kvs \<and>
      no_proto_field p)"
| "no_proto_field v = True"

text \<open>
  The call the specification says \<open>dub\<close> issues: a POST to \<open>/dub\<close> under the base URL, with
  the client's headers and the body \<open>{type, url, toLanguage, disableWatermark}\<close>.
\<close>

definition dub_call :: "config \<Rightarrow> DubOptions \<Rightarrow> http_request" where
  "dub_call cfg options =
     \<lparr>req_method = ''POST'',
      req_url = baseUrl cfg @ ''/dub'',
      req_query = [],
      req_headers = [(''x-api-key'', apiKey cfg), (''Content-Type'', ''application/json'')],
      req_body = Some (Obj [(''type'', Str (DubSource_value (source options))),
                            (''url'', Str (url options)),
                            (''toLanguage'', Str (language options)),
                            (''disableWatermark'',
                               (case disableWatermark options of
                                  None \<Rightarrow> Undefined | Some b \<Rightarrow> Bool b))])\<rparr>"

text \<open>
  The state of the job that one call of \<open>getJob\<close> fetches (none when the call or the read
  of \<open>state\<close> throws), and a pass of the polling loop that fetches a job whose state is
  not terminal.
\<close>

definition observed_state ::
  "config \<Rightarrow> string \<Rightarrow> (http_request \<Rightarrow> fetch_outcome) \<Rightarrow> jsval option" where
  "observed_state cfg jobId fetch =
     (case getJob cfg fetch jobId of
        Inl _ \<Rightarrow> None
      | Inr job \<Rightarrow> (case get_prop job ''state'' of Inl _ \<Rightarrow> None | Inr st \<Rightarrow> Some st))"

definition still_running :: "config \<Rightarrow> string \<Rightarrow> (http_request \<Rightarrow> fetch_outcome) \<Rightarrow> bool" where
  "still_running cfg jobId fetch =
     (case observed_state cfg jobId fetch of None \<Rightarrow> False | Some st \<Rightarrow> \<not> terminal st)"

text \<open>Values for the examples: a client, and a transport that answers with a given job.\<close>

definition demo_client :: config where
  "demo_client = new_Subformer \<lparr>opt_apiKey = ''sk_subformer_1'', opt_baseUrl = None,
                                opt_timeout = None\<rparr>"

definition job_response :: "string \<Rightarrow> string \<Rightarrow> response" where
  "job_response jobId st =
     \<lparr>status = 200, statusText = ''OK'',
      json = Inr (Obj [(''id'', Str jobId), (''state'', Str st),
                       (''createdAt'', Str ''2024-01-02T03:04:05Z'')])\<rparr>"

definition answers :: "response \<Rightarrow> http_request \<Rightarrow> fetch_outcome" where
  "answers r = (\<lambda>q. Resolves r)"

section \<open>Error classification\<close>

lemmas new_error_defs =
  new_AuthenticationError_def new_NotFoundError_def new_RateLimitError_def
  new_ValidationError_def new_SubformerError_def

lemma instanceof_handleError: "instanceof_SubformerError (ThrownError (handleError r))"
  by (simp add: instanceof_SubformerError_def handleError_def new_error_defs Let_def
      split: prod.splits)

lemma request_not_ok:
  assumes "fetch (build_request cfg meth path body params) = Resolves r" and "\<not> ok r"
  shows "request cfg fetch meth path body params = Inl (ThrownError (handleError r))"
  using assms instanceof_handleError [of r]
  by (simp add: request_def request_st_def await_fetch_def request_catch_def Let_def)

lemma request_depends:
  "fetch' (build_request cfg meth path body params) = fetch (build_request cfg meth path body params)
   \<Longrightarrow> request cfg fetch' meth path body params = request cfg fetch meth path body params"
  by (simp add: request_def request_st_def)

lemma request_ok:
  assumes "fetch (build_request cfg meth path body params) = Resolves r"
    and "ok r" and "status r \<noteq> 204" and "json r = Inr d"
  shows "request cfg fetch meth path body params = Inr (transformDates d)"
  using assms
  by (simp add: request_def request_st_def await_fetch_def Let_def)

lemma handleError_401:
  "status r = 401 \<Longrightarrow> cls (handleError r) = AuthenticationErrorC \<and>
     name (handleError r) = ''AuthenticationError'' \<and>
     statusCode (handleError r) = Some 401 \<and> code (handleError r) = Str ''UNAUTHORIZED''"
  by (simp add: handleError_def new_error_defs Let_def split: prod.splits)









text \<open>
  C9. When the transport answers with a response of status 204, \<open>request\<close> returns
  \<open>undefined\<close>, whatever \<open>response.json()\<close> would do: return a value or throw.
\<close>

theorem request_204:
  assumes "fetch (build_request cfg meth path body params) = Resolves r"
    and "status r = 204"
  shows "request cfg fetch meth path body params = Inr Undefined"
  using assms
  by (simp add: request_def request_st_def await_fetch_def ok_def Let_def)

theorem request_204_witness:
  "request \<lparr>apiKey = ''sk'', baseUrl = ''https://api.subformer.com/v1'', timeout = 30000\<rparr>
     (\<lambda>q. Resolves \<lparr>status = 204, statusText = ''No Content'',
            json = Inr (Obj [(''success'', Bool True)])\<rparr>)
     ''DELETE'' ''/voices/v1'' (Obj [(''voiceId'', Str ''v1'')]) None = Inr Undefined"
  using request_204
    [where fetch = "\<lambda>q. Resolves \<lparr>status = 204, statusText = ''No Content'',
            json = Inr (Obj [(''success'', Bool True)])\<rparr>"
       and cfg = "\<lparr>apiKey = ''sk'', baseUrl = ''https://api.subformer.com/v1'', timeout = 30000\<rparr>"
       and meth = "''DELETE''" and path = "''/voices/v1''"
       and body = "Obj [(''voiceId'', Str ''v1'')]" and params = None]
  by simp

section \<open>The timer of a call\<close>

lemma not_pending_clearTimeout: "\<not> pending (clearTimeout s)"
  by (simp add: clearTimeout_def pending_def)

lemma not_pending_request_catch: "\<not> pending (snd (request_catch s err))"
  by (simp add: request_catch_def Let_def not_pending_clearTimeout split: thrown.splits)

lemma not_pending_request_st:
  "\<not> pending (snd (request_st cfg fetch meth path body params))"
  by (simp add: request_st_def Let_def not_pending_clearTimeout not_pending_request_catch
      split: prod.splits sum.splits)

lemma request_st_Hangs:
  assumes "fetch (build_request cfg meth path body params) = Hangs"
  shows "request_st cfg fetch meth path body params =
     (Inl (ThrownError (new_SubformerError (Str ''Request timeout'') None)),
      \<lparr>timeoutId = Fired, aborted = True\<rparr>)"
  using assms
  by (simp add: request_st_def await_fetch_def request_catch_def Let_def new_Error_def
      instanceof_SubformerError_def timer_fires_def setTimeout_abort_def initial_def
      clearTimeout_def pending_def)

text \<open>
  C6. Whatever the transport does (a response of any status and body, a rejection with any
  thrown value, or no answer within the timeout), the timer of the call is not pending
  when \<open>request\<close> is left. When the call is still unsettled as the timer fires, the signal
  is aborted and \<open>request\<close> throws a \<open>SubformerError\<close> whose message is exactly
  \<open>Request timeout\<close>, with no status code, code or data.
\<close>

theorem request_timeout_and_timer:
  "\<not> pending (snd (request_st cfg fetch meth path body params)) \<and>
   (fetch (build_request cfg meth path body params) = Hangs \<longrightarrow>
      aborted (snd (request_st cfg fetch meth path body params)) \<and>
      (\<exists>e. request cfg fetch meth path body params = Inl (ThrownError e) \<and>
           cls e = SubformerErrorC \<and> name e = ''SubformerError'' \<and>
           message e = Str ''Request timeout'' \<and>
           statusCode e = None \<and> code e = Undefined \<and> data e = Undefined))"
proof (intro conjI impI)
  show "\<not> pending (snd (request_st cfg fetch meth path body params))"
    by (rule not_pending_request_st)
next
  assume h: "fetch (build_request cfg meth path body params) = Hangs"
  have st: "request_st cfg fetch meth path body params =
     (Inl (ThrownError (new_SubformerError (Str ''Request timeout'') None)),
      \<lparr>timeoutId = Fired, aborted = True\<rparr>)"
    using h by (rule request_st_Hangs)
  show "aborted (snd (request_st cfg fetch meth path body params))"
    by (simp add: st)
  show "\<exists>e. request cfg fetch meth path body params = Inl (ThrownError e) \<and>
           cls e = SubformerErrorC \<and> name e = ''SubformerError'' \<and>
           message e = Str ''Request timeout'' \<and>
           statusCode e = None \<and> code e = Undefined \<and> data e = Undefined"
    by (simp add: request_def st new_SubformerError_def Error_message_def)
qed

theorem request_timeout_and_timer_witness:
  "\<not> pending (snd (request_st
       \<lparr>apiKey = ''sk'', baseUrl = ''https://api.subformer.com/v1'', timeout = 50\<rparr>
       (\<lambda>q. Hangs) ''GET'' ''/users/me'' Undefined None)) \<and>
   aborted (snd (request_st
       \<lparr>apiKey = ''sk'', baseUrl = ''https://api.subformer.com/v1'', timeout = 50\<rparr>
       (\<lambda>q. Hangs) ''GET'' ''/users/me'' Undefined None)) \<and>
   (\<exists>e. request \<lparr>apiKey = ''sk'', baseUrl = ''https://api.subformer.com/v1'', timeout = 50\<rparr>
       (\<lambda>q. Hangs) ''GET'' ''/users/me'' Undefined None = Inl (ThrownError e) \<and>
      cls e = SubformerErrorC \<and> message e = Str ''Request timeout'')"
  using request_timeout_and_timer
    [where fetch = "\<lambda>q. Hangs"
       and cfg = "\<lparr>apiKey = ''sk'', baseUrl = ''https://api.subformer.com/v1'', timeout = 50\<rparr>"
       and meth = "''GET''" and path = "''/users/me''" and body = Undefined and params = None]
  by auto

section \<open>Default messages of the error classes\<close>

text \<open>
  C7, as the source has it. Constructed without a message, \<open>AuthenticationError\<close>,
  \<open>NotFoundError\<close> and \<open>RateLimitError\<close> carry their default messages, none of them empty.
  \<open>SubformerError\<close> and \<open>ValidationError\<close> declare no default: their message is the one
  of the built-in \<open>Error\<close> for the argument they are given.
\<close>

theorem default_messages:
  "message (new_AuthenticationError Undefined) = Str ''Invalid or missing API key'' \<and>
   message (new_NotFoundError Undefined) = Str ''Resource not found'' \<and>
   message (new_RateLimitError Undefined) = Str ''Rate limit exceeded'' \<and>
   message (new_SubformerError m opts) = Error_message m \<and>
   message (new_ValidationError m d) = Error_message m"
  by (simp add: new_AuthenticationError_def new_NotFoundError_def new_RateLimitError_def
      new_SubformerError_def new_ValidationError_def Error_message_def)

theorem default_messages_witness:
  "message (new_AuthenticationError Undefined) = Str ''Invalid or missing API key'' \<and>
   message (new_NotFoundError Undefined) = Str ''Resource not found'' \<and>
   message (new_RateLimitError Undefined) = Str ''Rate limit exceeded'' \<and>
   message (new_SubformerError (Str ''boom'') None) = Str ''boom'' \<and>
   message (new_ValidationError (Str ''bad'') Null) = Str ''bad''"
  using default_messages [where m = "Str ''boom''" and opts = None]
    default_messages [where m = "Str ''bad''" and d = Null]
  by (simp add: Error_message_def)

text \<open>
  C7 as stated fails: the base class and \<open>ValidationError\<close>, constructed without a message,
  have the empty message.
\<close>

theorem default_message_counterexample:
  "message (new_SubformerError Undefined None) = Str [] \<and>
   message (new_ValidationError Undefined Undefined) = Str []"
  by (simp add: new_SubformerError_def new_ValidationError_def Error_message_def)

section \<open>Date normalisation\<close>

lemma endsWith_suffix: "endsWith s suf = suffix suf s"
  by (auto simp: endsWith_def suffix_def) (metis append_take_drop_id)

lemma isDigit_ascii: "isDigit c = asciiDigit c"
  by (auto simp: isDigit_def asciiDigit_def)

lemma matchPrefix_nth:
  "matchPrefix ps s = (length ps \<le> length s \<and> (\<forall>i < length ps. (ps ! i) (s ! i)))"
proof (induction ps s rule: matchPrefix.induct)
  case (3 p ps c cs)
  then show ?case by (auto simp: less_Suc_eq_0_disj)
qed simp_all

lemma isoDateTest_prefix: "isoDateTest s = isoDateTimePrefix s"
  unfolding isoDateTest_def isoDateTimePrefix_def matchPrefix_nth
  by (simp add: isoDatePattern_def isDigit_ascii All_less_Suc eval_nat_numeral nth_Cons') blast

lemma assignAll_no_proto:
  "''__proto__'' \<notin> fst ` set es \<Longrightarrow> assignAll es = Obj es"
proof -
  assume n: "''__proto__'' \<notin> fst ` set es"
  then have "map_of es ''__proto__'' = None" by (simp add: map_of_eq_None_iff)
  moreover from n have "filter (\<lambda>kv. fst kv \<noteq> ''__proto__'') es = es"
    by (intro filter_True) force
  ultimately show ?thesis by (simp add: assignAll_def)
qed

text \<open>
  Where no record has a field named \<open>__proto__\<close>, \<open>transformDates\<close> is the walk of the
  specification on every decoded value.
\<close>

lemma transformDates_spec_walk:
  "decoded v \<Longrightarrow> no_proto_field v \<Longrightarrow> transformDates v = spec_walk v"
proof (induction v rule: transformDates.induct)
  case (3 xs)
  then show ?case by (simp add: list_all_iff)
next
  case (4 kvs)
  have f: "\<And>kv. kv \<in> set kvs \<Longrightarrow>
      (if isDateField (fst kv) (snd kv) then (case snd kv of Str s \<Rightarrow> Date s | w \<Rightarrow> w)
       else transformDates (snd kv)) =
      spec_field (fst kv) (snd kv) (spec_walk (snd kv))"
  proof -
    fix kv assume m: "kv \<in> set kvs"
    with 4 have d: "decoded (snd kv)" "no_proto_field (snd kv)"
      by (simp_all add: list_all_iff)
    show "(if isDateField (fst kv) (snd kv) then (case snd kv of Str s \<Rightarrow> Date s | w \<Rightarrow> w)
       else transformDates (snd kv)) =
      spec_field (fst kv) (snd kv) (spec_walk (snd kv))"
    proof (cases "isDateField (fst kv) (snd kv)")
      case True
      then show ?thesis
        by (cases "snd kv")
           (simp_all add: spec_field_def nameEndsAtOrOn_def endsWith_suffix isoDateTest_prefix)
    next
      case False
      with 4 m d have "transformDates (snd kv) = spec_walk (snd kv)" by simp
      with False show ?thesis
        by (cases "snd kv")
           (simp_all add: spec_field_def nameEndsAtOrOn_def endsWith_suffix isoDateTest_prefix)
    qed
  qed
  let ?es = "map (\<lambda>kv. (fst kv,
                 if isDateField (fst kv) (snd kv)
                 then (case snd kv of Str s \<Rightarrow> Date s | v \<Rightarrow> v)
                 else transformDates (snd kv))) kvs"
  from 4 have "''__proto__'' \<notin> fst ` set kvs" by (auto simp: list_all_iff)
  then have "''__proto__'' \<notin> fst ` set ?es" by (simp add: image_image)
  then have "assignAll ?es = Obj ?es" by (rule assignAll_no_proto)
  with f show ?case by simp
qed simp_all

text \<open>
  C3. A field named \<open>__proto__\<close> is not left unchanged by the walk, though its name does
  not end in \<open>At\<close> or \<open>On\<close>: \<open>request\<close> returns the record without it, and when the value
  of the field is a record, that record has become the prototype of the result, so that
  its fields are read through the result.
\<close>

theorem transformDates_proto_field:
  "request demo_client
     (answers \<lparr>status = 200, statusText = ''OK'',
        json = Inr (Obj [(''id'', Str ''j1''), (''__proto__'', Str ''kept'')])\<rparr>)
     ''GET'' ''/jobs/j1'' Undefined None = Inr (Obj [(''id'', Str ''j1'')]) \<and>
   spec_walk (Obj [(''id'', Str ''j1''), (''__proto__'', Str ''kept'')]) =
     Obj [(''id'', Str ''j1''), (''__proto__'', Str ''kept'')] \<and>
   transformDates (Obj [(''id'', Str ''j1''), (''__proto__'', Obj [(''state'', Str ''failed'')])]) =
     ObjProto [(''id'', Str ''j1'')] (Obj [(''state'', Str ''failed'')]) \<and>
   get_prop (transformDates
       (Obj [(''id'', Str ''j1''), (''__proto__'', Obj [(''state'', Str ''failed'')])])) ''state'' =
     Inr (Str ''failed'')"
  by (simp add: request_def request_st_def await_fetch_def answers_def ok_def Let_def
      assignAll_def endsWith_def get_prop_def spec_field_def nameEndsAtOrOn_def
      suffix_to_prefix)

section \<open>The dubbing operation\<close>

lemma map_of_fields:
  "map_of (map (\<lambda>kv. (fst kv, f (fst kv) (snd kv))) kvs) k = map_option (f k) (map_of kvs k)"
  by (induction kvs) auto

lemma get_prop_transformDates_job:
  assumes "''__proto__'' \<notin> fst ` set kvs"
  shows "get_prop (transformDates (Obj kvs)) ''job'' =
     Inr (case map_of kvs ''job'' of None \<Rightarrow> Undefined | Some j \<Rightarrow> transformDates j)"
proof -
  have nd: "\<And>v. \<not> isDateField ''job'' v"
  proof -
    fix v show "\<not> isDateField ''job'' v" by (cases v) (simp_all add: endsWith_def)
  qed
  let ?es = "map (\<lambda>kv. (fst kv,
                 if isDateField (fst kv) (snd kv)
                 then (case snd kv of Str s \<Rightarrow> Date s | v \<Rightarrow> v)
                 else transformDates (snd kv))) kvs"
  have "map_of ?es ''job''
      = map_option (\<lambda>v. if isDateField ''job'' v then (case v of Str s \<Rightarrow> Date s | v \<Rightarrow> v)
                 else transformDates v) (map_of kvs ''job'')"
    by (rule map_of_fields [where f = "\<lambda>k v. if isDateField k v then (case v of Str s \<Rightarrow> Date s | v \<Rightarrow> v)
                 else transformDates v"])
  moreover from assms have "''__proto__'' \<notin> fst ` set ?es" by (simp add: image_image)
  then have "assignAll ?es = Obj ?es" by (rule assignAll_no_proto)
  ultimately show ?thesis
    by (simp add: get_prop_def nd split: option.splits)
qed

lemma dub_build_request:
  "build_request cfg ''POST'' ''/dub'' (dub_body options) None = dub_call cfg options"
  by (simp add: build_request_def dub_body_def dub_call_def)

text \<open>
  C8. For every configuration and every \<open>DubOptions\<close>, the result of \<open>dub\<close> depends on the
  transport only through its answer to one call: the POST to \<open>/dub\<close> whose body is
  \<open>{type: source, url: url, toLanguage: language, disableWatermark: disableWatermark}\<close>.
  When that answer is a success other than 204 whose body decodes to a record, \<open>dub\<close>
  returns what reading \<open>job\<close> of the normalised body gives: the normalised \<open>job\<close> field of
  the body, where the body has no field named \<open>__proto__\<close>.
\<close>

theorem dub_post:
  "(\<forall>fetch'. fetch' (dub_call cfg options) = fetch (dub_call cfg options) \<longrightarrow>
       dub cfg fetch' options = dub cfg fetch options) \<and>
   (fetch (dub_call cfg options) = Resolves r \<and> ok r \<and> status r \<noteq> 204 \<and>
    json r = Inr (Obj kvs) \<longrightarrow>
       dub cfg fetch options = get_prop (transformDates (Obj kvs)) ''job'' \<and>
       (''__proto__'' \<notin> fst ` set kvs \<longrightarrow>
          dub cfg fetch options =
            Inr (case map_of kvs ''job'' of None \<Rightarrow> Undefined | Some j \<Rightarrow> transformDates j)))"
proof (intro conjI allI impI)
  fix fetch' assume "fetch' (dub_call cfg options) = fetch (dub_call cfg options)"
  then have "request cfg fetch' ''POST'' ''/dub'' (dub_body options) None =
      request cfg fetch ''POST'' ''/dub'' (dub_body options) None"
    by (intro request_depends) (simp add: dub_build_request)
  then show "dub cfg fetch' options = dub cfg fetch options"
    by (simp add: dub_def)
next
  assume a: "fetch (dub_call cfg options) = Resolves r \<and> ok r \<and> status r \<noteq> 204 \<and>
    json r = Inr (Obj kvs)"
  then have f: "fetch (build_request cfg ''POST'' ''/dub'' (dub_body options) None) = Resolves r"
    by (simp add: dub_build_request)
  from a have b: "ok r" "status r \<noteq> 204" "json r = Inr (Obj kvs)" by simp_all
  have "request cfg fetch ''POST'' ''/dub'' (dub_body options) None =
      Inr (transformDates (Obj kvs))"
    using f b by (rule request_ok)
  then show g: "dub cfg fetch options = get_prop (transformDates (Obj kvs)) ''job''"
    by (simp add: dub_def del: transformDates.simps)
  assume "''__proto__'' \<notin> fst ` set kvs"
  then have "get_prop (transformDates (Obj kvs)) ''job'' =
     Inr (case map_of kvs ''job'' of None \<Rightarrow> Undefined | Some j \<Rightarrow> transformDates j)"
    by (rule get_prop_transformDates_job)
  with g show "dub cfg fetch options =
         Inr (case map_of kvs ''job'' of None \<Rightarrow> Undefined | Some j \<Rightarrow> transformDates j)"
    by simp
qed

section \<open>Polling for a job\<close>

lemma waitLoop_continues:
  assumes "still_running cfg jobId fetch"
    and "\<not> (case tmo of None \<Rightarrow> False | Some t \<Rightarrow> t \<noteq> 0 \<and> now - startTime > t)"
  shows "waitLoop cfg jobId options p tmo startTime ((fetch, now) # rest) n sl =
         waitLoop cfg jobId options p tmo startTime rest (Suc n) (sl @ [p])"
  using assms
  by (auto simp: still_running_def observed_state_def split: sum.splits option.splits)

lemma waitLoop_prefix:
  assumes "\<forall>(f, t) \<in> set pre. still_running cfg jobId f \<and>
             \<not> (case tmo of None \<Rightarrow> False | Some T \<Rightarrow> T \<noteq> 0 \<and> t - startTime > T)"
  shows "waitLoop cfg jobId options p tmo startTime (pre @ rest) n sl =
         waitLoop cfg jobId options p tmo startTime rest (n + length pre)
           (sl @ replicate (length pre) p)"
  using assms
proof (induction pre arbitrary: n sl)
  case Nil
  then show ?case by simp
next
  case (Cons a pre)
  obtain f t where a: "a = (f, t)" by (cases a)
  from Cons.prems a have 1: "still_running cfg jobId f"
    and 2: "\<not> (case tmo of None \<Rightarrow> False | Some T \<Rightarrow> T \<noteq> 0 \<and> t - startTime > T)"
    by simp_all
  from Cons.prems have 3: "\<forall>(f, t) \<in> set pre. still_running cfg jobId f \<and>
             \<not> (case tmo of None \<Rightarrow> False | Some T \<Rightarrow> T \<noteq> 0 \<and> t - startTime > T)"
    by simp
  have "waitLoop cfg jobId options p tmo startTime ((a # pre) @ rest) n sl =
        waitLoop cfg jobId options p tmo startTime (pre @ rest) (Suc n) (sl @ [p])"
    using waitLoop_continues [OF 1 2] a by simp
  also have "\<dots> = waitLoop cfg jobId options p tmo startTime rest (Suc n + length pre)
           ((sl @ [p]) @ replicate (length pre) p)"
    using 3 by (rule Cons.IH)
  finally show ?case by (simp add: replicate_app_Cons_same)
qed

lemma waitLoop_terminal:
  assumes "getJob cfg fetch jobId = Inr job" and "get_prop job ''state'' = Inr st"
    and "terminal st"
  shows "waitLoop cfg jobId options p tmo startTime ((fetch, now) # rest) n sl =
         Some \<lparr>outcome = Inr job, calls = Suc n, slept = sl\<rparr>"
  using assms by simp

lemma waitLoop_times_out:
  assumes "still_running cfg jobId fetch" and "T \<noteq> 0" and "now - startTime > T"
  shows "waitLoop cfg jobId options p (Some T) startTime ((fetch, now) # rest) n sl =
         Some \<lparr>outcome = Inl (ThrownError (new_Error ''Error''
                            (Str (timeout_message jobId (wait_timeout options))))),
               calls = Suc n, slept = sl\<rparr>"
  using assms
  by (auto simp: still_running_def observed_state_def split: sum.splits option.splits)

lemma request_catch_taxonomy:
  "fst (request_catch s err) = Inl t \<Longrightarrow> instanceof_SubformerError t"
  by (auto simp: request_catch_def Let_def instanceof_SubformerError_def new_SubformerError_def
      split: if_splits thrown.splits)

lemma request_throws_taxonomy:
  assumes "request cfg fetch meth path body params = Inl t"
  shows "instanceof_SubformerError t"
proof -
  have "\<And>s err. fst (request_catch s err) = Inl t \<Longrightarrow> instanceof_SubformerError t"
    by (rule request_catch_taxonomy)
  with assms show ?thesis
    by (auto simp: request_def request_st_def Let_def split: prod.splits sum.splits if_splits)
qed

lemma get_prop_throws_TypeError:
  "get_prop v k = Inl t \<Longrightarrow> \<exists>e. t = ThrownError e \<and> name e = ''TypeError''"
  by (auto simp: get_prop_def new_Error_def split: jsval.splits)

lemma waitLoop_no_timeout_options:
  "waitLoop cfg jobId options p None startTime passes n sl =
   waitLoop cfg jobId options' p None startTime passes n sl"
  by (induction passes arbitrary: n sl) (auto split: sum.splits)

lemma waitLoop_no_timeout_error:
  assumes "waitLoop cfg jobId options p None startTime passes n sl = Some r"
    and "outcome r = Inl (ThrownError e)"
  shows "\<not> (cls e = BuiltinError \<and> name e = ''Error'')"
  using assms
proof (induction passes arbitrary: n sl)
  case Nil
  then show ?case by simp
next
  case (Cons a passes)
  obtain f t where a: "a = (f, t)" by (cases a)
  show ?case
  proof (cases "getJob cfg f jobId")
    case (Inl err)
    then have "instanceof_SubformerError err"
      unfolding getJob_def by (rule request_throws_taxonomy)
    with Cons.prems a Inl show ?thesis
      by (auto simp: instanceof_SubformerError_def)
  next
    case (Inr job)
    show ?thesis
    proof (cases "get_prop job ''state''")
      case (Inl err)
      with get_prop_throws_TypeError obtain e' where "err = ThrownError e'" "name e' = ''TypeError''"
        by blast
      with Cons.prems a Inr Inl show ?thesis by auto
    next
      case st: (Inr st)
      show ?thesis
      proof (cases "terminal st")
        case True
        with Cons.prems a Inr st show ?thesis by auto
      next
        case False
        with Cons.prems a Inr st have
          "waitLoop cfg jobId options p None startTime passes (Suc n) (sl @ [p]) = Some r"
          by simp
        then show ?thesis using Cons.prems(2) by (rule Cons.IH)
      qed
    qed
  qed
qed

text \<open>
  C4. When every pass before the \<open>k\<close>-th fetches a job whose state is not terminal, without
  the time budget being exceeded at its check, and the \<open>k\<close>-th call of \<open>getJob\<close> fetches a job
  whose state is \<open>completed\<close>, \<open>failed\<close> or \<open>cancelled\<close>, then \<open>waitForJob\<close> returns exactly
  the job that call fetched, after exactly \<open>k\<close> calls of \<open>getJob\<close> and \<open>k - 1\<close> sleeps of the
  poll interval; nothing after that pass is consulted.
\<close>

theorem waitForJob_first_terminal:
  assumes "\<forall>(f, t) \<in> set pre. still_running cfg jobId f \<and>
             (\<forall>T. wait_timeout options = Some T \<longrightarrow> t - startTime \<le> T * 1000)"
    and "getJob cfg fetch jobId = Inr job" and "get_prop job ''state'' = Inr st"
    and "terminal st"
  shows "waitForJob cfg jobId options startTime (pre @ (fetch, now) # rest) =
     Some \<lparr>outcome = Inr job, calls = Suc (length pre),
           slept = replicate (length pre)
                     ((case pollInterval options of None \<Rightarrow> 2 | Some p \<Rightarrow> p) * 1000)\<rparr>"
proof -
  let ?tmo = "case wait_timeout options of None \<Rightarrow> None
              | Some t \<Rightarrow> if t \<noteq> 0 then Some (t * 1000) else None"
  have pre: "\<forall>(f, t) \<in> set pre. still_running cfg jobId f \<and>
             \<not> (case ?tmo of None \<Rightarrow> False | Some T \<Rightarrow> T \<noteq> 0 \<and> t - startTime > T)"
    using assms(1) by (auto split: option.splits)
  show ?thesis
    unfolding waitForJob_def Let_def
    by (simp only: waitLoop_prefix [OF pre] waitLoop_terminal [OF assms(2,3,4)]) simp
qed

text \<open>
  C5, as the code tests the budget: after a fetch, and only when the fetched state is not
  terminal. Given a timeout other than 0, of a whole number of seconds in the exact range:
  when every pass so far has fetched a job whose state is not terminal, and the elapsed
  time read after such a fetch exceeds the timeout for the first time, \<open>waitForJob\<close> throws
  a plain \<open>Error\<close> whose message is \<open>Job <id> did not complete within <timeout> seconds\<close>,
  with no status code, code or data, having called \<open>getJob\<close> once per pass, so at least
  once.
\<close>

theorem waitForJob_timeout:
  assumes "wait_timeout options = Some T" and "T \<noteq> 0"
    and "\<forall>(f, t) \<in> set pre. still_running cfg jobId f \<and> t - startTime \<le> T * 1000"
    and "still_running cfg jobId fetch" and "now - startTime > T * 1000"
    and "exact_ms T"
  shows "\<exists>r e. waitForJob cfg jobId options startTime (pre @ (fetch, now) # rest) = Some r \<and>
     outcome r = Inl (ThrownError e) \<and> cls e = BuiltinError \<and> name e = ''Error'' \<and>
     message e = Str (''Job '' @ jobId @ '' did not complete within '' @
                      string_of_int T @ '' seconds'') \<and>
     statusCode e = None \<and> code e = Undefined \<and> data e = Undefined \<and>
     calls r = Suc (length pre) \<and> 1 \<le> calls r"
proof -
  have pre: "\<forall>(f, t) \<in> set pre. still_running cfg jobId f \<and>
             \<not> (case Some (T * 1000) of None \<Rightarrow> False
                 | Some T' \<Rightarrow> T' \<noteq> 0 \<and> t - startTime > T')"
    using assms(3) by auto
  have nz: "T * 1000 \<noteq> 0" using assms(2) by simp
  show ?thesis
    unfolding waitForJob_def Let_def
    by (simp only: assms(1) option.case assms(2) if_True not_False_eq_True
          waitLoop_prefix [OF pre] waitLoop_times_out [OF assms(4) nz assms(5)])
       (simp add: new_Error_def Error_message_def timeout_message_def assms(1))
qed

text \<open>
  C10. With the timeout 0, \<open>waitForJob\<close> does on every sequence of passes what it does with
  no timeout; as long as the passes fetch jobs whose state is not terminal it has not
  left the loop, whatever the clock reads; and when it leaves with an error, the error is
  not the plain \<open>Error\<close> of the expired budget.
\<close>

theorem waitForJob_timeout_zero:
  "waitForJob cfg jobId (options\<lparr>wait_timeout := Some 0\<rparr>) startTime passes =
     waitForJob cfg jobId (options\<lparr>wait_timeout := None\<rparr>) startTime passes \<and>
   ((\<forall>(f, t) \<in> set passes. still_running cfg jobId f) \<longrightarrow>
      waitForJob cfg jobId (options\<lparr>wait_timeout := Some 0\<rparr>) startTime passes = None) \<and>
   (\<forall>r e. waitForJob cfg jobId (options\<lparr>wait_timeout := Some 0\<rparr>) startTime passes = Some r \<and>
          outcome r = Inl (ThrownError e) \<longrightarrow>
          \<not> (cls e = BuiltinError \<and> name e = ''Error''))"
proof (intro conjI allI impI)
  show "waitForJob cfg jobId (options\<lparr>wait_timeout := Some 0\<rparr>) startTime passes =
     waitForJob cfg jobId (options\<lparr>wait_timeout := None\<rparr>) startTime passes"
    by (simp add: waitForJob_def
        waitLoop_no_timeout_options [of _ _ "options\<lparr>wait_timeout := Some 0\<rparr>" _ _ _ _ _
          "options\<lparr>wait_timeout := None\<rparr>"])
next
  assume "\<forall>(f, t) \<in> set passes. still_running cfg jobId f"
  then have pre: "\<forall>(f, t) \<in> set passes. still_running cfg jobId f \<and>
     \<not> (case (None :: int option) of None \<Rightarrow> False | Some T \<Rightarrow> T \<noteq> 0 \<and> t - startTime > T)"
    by auto
  show "waitForJob cfg jobId (options\<lparr>wait_timeout := Some 0\<rparr>) startTime passes = None"
    using waitLoop_prefix [OF pre, where rest = "[]"]
    by (simp add: waitForJob_def)
next
  fix r e
  assume "waitForJob cfg jobId (options\<lparr>wait_timeout := Some 0\<rparr>) startTime passes = Some r \<and>
          outcome r = Inl (ThrownError e)"
  then have 1: "waitLoop cfg jobId (options\<lparr>wait_timeout := Some 0\<rparr>)
       ((case pollInterval options of None \<Rightarrow> 2 | Some p \<Rightarrow> p) * 1000) None startTime passes 0 [] = Some r"
    and 2: "outcome r = Inl (ThrownError e)"
    by (simp_all add: waitForJob_def)
  show "\<not> (cls e = BuiltinError \<and> name e = ''Error'')"
    using 1 2 by (rule waitLoop_no_timeout_error)
qed

section \<open>Worked examples\<close>

lemma getJob_job_response:
  "getJob cfg (answers (job_response j st)) j' =
     Inr (Obj [(''id'', Str j), (''state'', Str st),
               (''createdAt'', Date ''2024-01-02T03:04:05Z'')])"
  by (simp add: getJob_def request_def request_st_def await_fetch_def answers_def
      job_response_def ok_def Let_def endsWith_def isoDateTest_def isoDatePattern_def
      isDigit_def assignAll_def)

lemma still_running_job_response:
  "still_running cfg j' (answers (job_response j st)) = (\<not> terminal (Str st))"
  by (simp add: still_running_def observed_state_def getJob_job_response get_prop_def)

text \<open>
  \<open>dub({source: "youtube", url: ..., language: "es-ES"})\<close> against a transport that answers
  only the POST to \<open>/dub\<close> with the renamed body, and rejects every other call.
\<close>

theorem dub_post_witness:
  "dub demo_client
     (\<lambda>q. if q = \<lparr>req_method = ''POST'', req_url = ''https://api.subformer.com/v1/dub'',
                   req_query = [],
                   req_headers = [(''x-api-key'', ''sk_subformer_1''),
                                  (''Content-Type'', ''application/json'')],
                   req_body = Some (Obj [(''type'', Str ''youtube''),
                                         (''url'', Str ''https://youtu.be/abc''),
                                         (''toLanguage'', Str ''es-ES''),
                                         (''disableWatermark'', Undefined)])\<rparr>
           then Resolves \<lparr>status = 200, statusText = ''OK'',
                  json = Inr (Obj [(''job'', Obj [(''id'', Str ''j1''), (''state'', Str ''queued''),
                                      (''createdAt'', Str ''2024-01-02T03:04:05Z'')])])\<rparr>
           else Rejects (ThrownValue Null))
     \<lparr>source = youtube, url = ''https://youtu.be/abc'', language = ''es-ES'',
      disableWatermark = None\<rparr> =
   Inr (Obj [(''id'', Str ''j1''), (''state'', Str ''queued''),
             (''createdAt'', Date ''2024-01-02T03:04:05Z'')])"
  using dub_post
    [where cfg = demo_client
       and options = "\<lparr>source = youtube, url = ''https://youtu.be/abc'', language = ''es-ES'',
                        disableWatermark = None\<rparr>"
       and fetch = "\<lambda>q. if q = \<lparr>req_method = ''POST'', req_url = ''https://api.subformer.com/v1/dub'',
                   req_query = [],
                   req_headers = [(''x-api-key'', ''sk_subformer_1''),
                                  (''Content-Type'', ''application/json'')],
                   req_body = Some (Obj [(''type'', Str ''youtube''),
                                         (''url'', Str ''https://youtu.be/abc''),
                                         (''toLanguage'', Str ''es-ES''),
                                         (''disableWatermark'', Undefined)])\<rparr>
           then Resolves \<lparr>status = 200, statusText = ''OK'',
                  json = Inr (Obj [(''job'', Obj [(''id'', Str ''j1''), (''state'', Str ''queued''),
                                      (''createdAt'', Str ''2024-01-02T03:04:05Z'')])])\<rparr>
           else Rejects (ThrownValue Null)"
       and r = "\<lparr>status = 200, statusText = ''OK'',
                  json = Inr (Obj [(''job'', Obj [(''id'', Str ''j1''), (''state'', Str ''queued''),
                                      (''createdAt'', Str ''2024-01-02T03:04:05Z'')])])\<rparr>"
       and kvs = "[(''job'', Obj [(''id'', Str ''j1''), (''state'', Str ''queued''),
                                      (''createdAt'', Str ''2024-01-02T03:04:05Z'')])]"]
  by (simp add: dub_call_def demo_client_def new_Subformer_def DEFAULT_BASE_URL_def
      DEFAULT_TIMEOUT_def stripTrailingSlash_def ok_def endsWith_def isoDateTest_def
      isoDatePattern_def isDigit_def assignAll_def get_prop_def)

text \<open>
  A job that is queued, then active, then completed: the completed job is returned after
  three calls of \<open>getJob\<close> and two sleeps of the default interval.
\<close>

theorem waitForJob_first_terminal_witness:
  "waitForJob demo_client ''j1'' \<lparr>pollInterval = None, wait_timeout = None\<rparr> 0
     [(answers (job_response ''j1'' ''queued''), 12),
      (answers (job_response ''j1'' ''active''), 2030),
      (answers (job_response ''j1'' ''completed''), 4050),
      (answers (job_response ''j1'' ''completed''), 6070)] =
   Some \<lparr>outcome = Inr (Obj [(''id'', Str ''j1''), (''state'', Str ''completed''),
                             (''createdAt'', Date ''2024-01-02T03:04:05Z'')]),
         calls = 3, slept = [2000, 2000]\<rparr>"
  using waitForJob_first_terminal
    [where cfg = demo_client and jobId = "''j1''"
       and options = "\<lparr>pollInterval = None, wait_timeout = None\<rparr>" and startTime = 0
       and pre = "[(answers (job_response ''j1'' ''queued''), 12),
                   (answers (job_response ''j1'' ''active''), 2030)]"
       and fetch = "answers (job_response ''j1'' ''completed'')" and now = 4050
       and rest = "[(answers (job_response ''j1'' ''completed''), 6070)]"
       and job = "Obj [(''id'', Str ''j1''), (''state'', Str ''completed''),
                       (''createdAt'', Date ''2024-01-02T03:04:05Z'')]"
       and st = "Str ''completed''"]
  by (simp add: still_running_job_response getJob_job_response terminal_def get_prop_def
      numeral_2_eq_2)

text \<open>
  With \<open>timeout: 5\<close>, an elapsed time of exactly 5000 ms does not end the loop; 5001 ms
  does, before the pass that would have fetched the completed job.
\<close>

theorem waitForJob_timeout_witness:
  "\<exists>r e. waitForJob demo_client ''j1'' \<lparr>pollInterval = None, wait_timeout = Some 5\<rparr> 0
     [(answers (job_response ''j1'' ''queued''), 12),
      (answers (job_response ''j1'' ''active''), 5000),
      (answers (job_response ''j1'' ''active''), 5001),
      (answers (job_response ''j1'' ''completed''), 7000)] = Some r \<and>
     outcome r = Inl (ThrownError e) \<and> cls e = BuiltinError \<and> name e = ''Error'' \<and>
     message e = Str ''Job j1 did not complete within 5 seconds'' \<and> calls r = 3"
  using waitForJob_timeout
    [where cfg = demo_client and jobId = "''j1''" and T = 5
       and options = "\<lparr>pollInterval = None, wait_timeout = Some 5\<rparr>" and startTime = 0
       and pre = "[(answers (job_response ''j1'' ''queued''), 12),
                   (answers (job_response ''j1'' ''active''), 5000)]"
       and fetch = "answers (job_response ''j1'' ''active'')" and now = 5001
       and rest = "[(answers (job_response ''j1'' ''completed''), 7000)]"]
  by (auto simp: still_running_job_response terminal_def string_of_int_def exact_ms_def
      MAX_SAFE_INTEGER_def)

text \<open>
  C5 as stated fails. With \<open>timeout: 5\<close>, the fetches after 12 and 4050 ms give a queued
  and an active job, so no terminal state has been fetched when the elapsed time passes
  5000 ms; the loop still does not fail: the third fetch, made after the budget has run
  out, gives a failed job, and that job is returned, the state being tested before the
  budget.
\<close>

theorem waitForJob_timeout_counterexample:
  "waitForJob demo_client ''j1'' \<lparr>pollInterval = None, wait_timeout = Some 5\<rparr> 0
     [(answers (job_response ''j1'' ''queued''), 12),
      (answers (job_response ''j1'' ''active''), 4050),
      (answers (job_response ''j1'' ''failed''), 6070)] =
   Some \<lparr>outcome = Inr (Obj [(''id'', Str ''j1''), (''state'', Str ''failed''),
                             (''createdAt'', Date ''2024-01-02T03:04:05Z'')]),
         calls = 3, slept = [2000, 2000]\<rparr>"
  by (simp add: waitForJob_def getJob_job_response get_prop_def terminal_def)

text \<open>
  With \<open>timeout: 0\<close>, passes whose clock is far beyond the start leave the loop running,
  as they do with no timeout, and an error of \<open>getJob\<close> ends it.
\<close>

theorem waitForJob_timeout_zero_witness:
  "waitForJob demo_client ''j1'' \<lparr>pollInterval = None, wait_timeout = Some 0\<rparr> 0
     [(answers (job_response ''j1'' ''queued''), 60000),
      (answers (job_response ''j1'' ''active''), 120000)] = None \<and>
   waitForJob demo_client ''j1'' \<lparr>pollInterval = None, wait_timeout = None\<rparr> 0
     [(answers (job_response ''j1'' ''queued''), 60000),
      (answers (job_response ''j1'' ''active''), 120000)] = None \<and>
   (\<exists>r e. waitForJob demo_client ''j1'' \<lparr>pollInterval = None, wait_timeout = Some 0\<rparr> 0
     [(answers (job_response ''j1'' ''queued''), 60000),
      (answers \<lparr>status = 401, statusText = ''Unauthorized'', json = Inr Null\<rparr>, 120000)]
       = Some r \<and>
      outcome r = Inl (ThrownError e) \<and> cls e = AuthenticationErrorC \<and> calls r = 2)"
proof -
  note z = waitForJob_timeout_zero
      [where cfg = demo_client and jobId = "''j1''"
         and options = "\<lparr>pollInterval = None, wait_timeout = Some 0\<rparr>" and startTime = 0
         and passes = "[(answers (job_response ''j1'' ''queued''), 60000),
                        (answers (job_response ''j1'' ''active''), 120000)]"]
  have 1: "waitForJob demo_client ''j1'' \<lparr>pollInterval = None, wait_timeout = Some 0\<rparr> 0
     [(answers (job_response ''j1'' ''queued''), 60000),
      (answers (job_response ''j1'' ''active''), 120000)] = None"
    using z [THEN conjunct2, THEN conjunct1]
    by (simp add: still_running_job_response terminal_def)
  have 2: "waitForJob demo_client ''j1'' \<lparr>pollInterval = None, wait_timeout = None\<rparr> 0
     [(answers (job_response ''j1'' ''queued''), 60000),
      (answers (job_response ''j1'' ''active''), 120000)] = None"
    using z [THEN conjunct1] 1 by simp
  have 3: "getJob demo_client
       (answers \<lparr>status = 401, statusText = ''Unauthorized'', json = Inr Null\<rparr>) ''j1'' =
     Inl (ThrownError (handleError
       \<lparr>status = 401, statusText = ''Unauthorized'', json = Inr Null\<rparr>))"
    unfolding getJob_def by (rule request_not_ok) (simp_all add: answers_def ok_def)
  have 4: "\<exists>r e. waitForJob demo_client ''j1'' \<lparr>pollInterval = None, wait_timeout = Some 0\<rparr> 0
     [(answers (job_response ''j1'' ''queued''), 60000),
      (answers \<lparr>status = 401, statusText = ''Unauthorized'', json = Inr Null\<rparr>, 120000)]
       = Some r \<and>
      outcome r = Inl (ThrownError e) \<and> cls e = AuthenticationErrorC \<and> calls r = 2"
    using handleError_401 [of "\<lparr>status = 401, statusText = ''Unauthorized'', json = Inr Null\<rparr>"]
    by (simp add: waitForJob_def getJob_job_response get_prop_def terminal_def 3)
  from 1 2 4 show ?thesis by simp
qed

end
